theory Spec2Isabelle
  imports Main "HOL-Library.AList"
begin

section \<open>convert\_ncbi\_refseq\_genbank\_chromosomes.py\<close>

text \<open>
  The script reads a tab-separated conversion table with pandas, builds a dictionary
  from one accession column to the other, and rewrites the first column of a GFF3 file
  line by line. The embedding follows the script statement by statement. Python strings
  are \<open>string\<close>, exceptions are values of \<open>error\<close>, the dictionary is an
  association list in insertion order, and the files and the console are explicit state.
\<close>

subsection \<open>Python strings\<close>

abbreviation TAB :: char where "TAB \<equiv> CHR 0x09"
abbreviation LF :: char where "LF \<equiv> CHR 0x0A"

text \<open>\<^verbatim>\<open>s.startswith(p)\<close>\<close>

definition startswith :: "string \<Rightarrow> string \<Rightarrow> bool" where
  "startswith s p = (take (length p) s = p)"

text \<open>
  \<^verbatim>\<open>s.split(sep)\<close> for a one-character separator: every separator ends a field, and
  the result is never empty (\<^verbatim>\<open>''.split('\t') == ['']\<close>).
\<close>

fun str_split :: "char \<Rightarrow> string \<Rightarrow> string list" where
  "str_split sep [] = [[]]"
| "str_split sep (c # cs) =
     (if c = sep then [] # str_split sep cs
      else (case str_split sep cs of
              [] \<Rightarrow> [[c]]
            | f # fs \<Rightarrow> (c # f) # fs))"

text \<open>\<^verbatim>\<open>sep.join(xs)\<close> for a list of strings.\<close>

fun str_join :: "char \<Rightarrow> string list \<Rightarrow> string" where
  "str_join sep [] = []"
| "str_join sep [x] = x"
| "str_join sep (x # y # ys) = x @ sep # str_join sep (y # ys)"

text \<open>
  Iterating over a text file yields its lines, each with its terminating newline; only
  the last line can lack one, and no line is empty. \<open>file_rows\<close> takes the text of
  the file as Python's text layer delivers it.
\<close>

fun file_rows :: "string \<Rightarrow> string list" where
  "file_rows [] = []"
| "file_rows (c # cs) =
     (if c = LF then [LF] # file_rows cs
      else (case file_rows cs of
              [] \<Rightarrow> [[c]]
            | r # rs \<Rightarrow> (c # r) # rs))"

subsection \<open>Values, exceptions, console\<close>

text \<open>
  A cell of the data frame, and so a key or a value of the dictionary, is a Python
  \<^verbatim>\<open>str\<close> or the float \<^verbatim>\<open>nan\<close> that pandas stores for a missing value.
\<close>

datatype cell = Str string | NaN

type_synonym dict = "(cell \<times> cell) list"

datatype error =
    NameError string
  | FileNotFoundError string
  | PermissionError string
  | EmptyDataError
  | ParserError
  | ValueError
  | KeyError string
  | TypeError

text \<open>
  What the process writes to its standard streams: \<^verbatim>\<open>print\<close> writes the line
  \<^verbatim>\<open>Row unparseable: \<close> followed by the \<^verbatim>\<open>repr\<close> of the split row to standard
  output; the interpreter writes the traceback of an uncaught exception to standard error.
\<close>

datatype message = Row_unparseable "string list" | Traceback error

text \<open>
  The state of the loop: the text written to \<^verbatim>\<open>fh\<close> so far and the messages
  printed so far.
\<close>

record state =
  fh :: string
  stdout :: "message list"

subsection \<open>The remapping loop (lines 27 to 37)\<close>

text \<open>
  Lines 32 to 37: split the row on tabs, look field 0 up, replace it or print the
  diagnostic, and write the joined row. A replacement value that is not a
  \<^verbatim>\<open>str\<close> makes \<^verbatim>\<open>'\t'.join(row)\<close> raise TypeError, before anything of the row
  is written.
\<close>

definition remap_row :: "dict \<Rightarrow> string \<Rightarrow> state \<Rightarrow> error option \<times> state" where
  "remap_row m row st =
     (let fields = str_split TAB row in
      case map_of m (Str (hd fields)) of
        Some (Str v) \<Rightarrow> (None, st\<lparr>fh := fh st @ str_join TAB (v # tl fields)\<rparr>)
      | Some NaN \<Rightarrow> (Some TypeError, st)
      | None \<Rightarrow>
          (None, st\<lparr>stdout := stdout st @ [Row_unparseable fields],
                    fh := fh st @ str_join TAB fields\<rparr>))"

text \<open>
  Lines 28 to 37, one iteration. The \<^verbatim>\<open>if\<close> branch writes the row and, having no
  \<^verbatim>\<open>continue\<close>, goes on to line 32; the \<^verbatim>\<open>elif\<close> branch skips the row.
\<close>

definition process_row :: "dict \<Rightarrow> string \<Rightarrow> state \<Rightarrow> error option \<times> state" where
  "process_row m row st =
     (if startswith row ''##gff'' then remap_row m row (st\<lparr>fh := fh st @ row\<rparr>)
      else if startswith row ''#'' then (None, st)
      else remap_row m row st)"

text \<open>The \<^verbatim>\<open>for\<close> loop: an exception ends it with the state reached.\<close>

fun for_rows :: "dict \<Rightarrow> string list \<Rightarrow> state \<Rightarrow> error option \<times> state" where
  "for_rows m [] st = (None, st)"
| "for_rows m (row # rows) st =
     (case process_row m row st of
        (Some e, st') \<Rightarrow> (Some e, st')
      | (None, st') \<Rightarrow> for_rows m rows st')"

subsection \<open>The conversion table (lines 20 to 25)\<close>

text \<open>Line 6: the ten column names the script assigns to the table.\<close>

definition header :: "string list" where
  "header =
     [''Sequence-Name'', ''Sequence-Role'', ''Assigned-Molecule'',
      ''Assigned-Molecule-Location/Type'', ''GenBank-Accn'', ''Relationship'',
      ''RefSeq-Accn'', ''Assembly-Unit'', ''Sequence-Length'', ''UCSC-style-name'']"

record dataframe =
  columns :: "string list"
  data :: "cell list list"

text \<open>
  \<^verbatim>\<open>pd.read_csv(path, sep='\t', comment='#')\<close> on the text of the table. The model
  covers what the script relies on:
  \<^item> the text is cut into lines at newlines; from the comment character to the end of
    its line nothing is parsed, and a line that is empty (or empty after that) is skipped;
  \<^item> the first line that remains gives the column names (\<^verbatim>\<open>header='infer'\<close>) and
    is not a row of the frame; every later line is a record, split on tabs;
  \<^item> a record shorter than the table is filled with missing values; the first record
    may be longer than the line of names, its leading fields then form the index and are
    not columns; any later record longer than that is a ParserError;
  \<^item> a field that is one of pandas's default missing-value markers becomes
    \<^verbatim>\<open>nan\<close>, every other field stays the \<^verbatim>\<open>str\<close> it is;
  \<^item> a file with no line left raises EmptyDataError.
  The model is for tables without a double quote: with pandas's default
  \<^verbatim>\<open>quotechar\<close> a quoted field keeps the tabs, newlines and \<^verbatim>\<open>#\<close> inside the
  quotes as its content, which the model does not do, so nothing below concludes from
  the model what characters a cell can hold. Lines of blanks only, and the conversion of
  a column whose fields are all numbers or booleans to a numeric dtype, are outside the
  model too: the two accession columns hold identifiers such as \<^verbatim>\<open>NC_000001.11\<close>.
\<close>

definition na_values :: "string list" where
  "na_values =
     [[], ''#N/A'', ''#N/A N/A'', ''#NA'', ''-1.#IND'', ''-1.#QNAN'', ''-NaN'', ''-nan'',
      ''1.#IND'', ''1.#QNAN'', ''<NA>'', ''N/A'', ''NA'', ''NULL'', ''NaN'', ''None'',
      ''n/a'', ''nan'', ''null'']"

definition to_cell :: "string \<Rightarrow> cell" where
  "to_cell s = (if s \<in> set na_values then NaN else Str s)"

definition strip_comment :: "string \<Rightarrow> string" where
  "strip_comment l = takeWhile (\<lambda>c. c \<noteq> CHR ''#'') l"

text \<open>The lines pandas tokenizes: comments cut off, empty lines dropped.\<close>

definition table_lines :: "string \<Rightarrow> string list" where
  "table_lines text = filter (\<lambda>l. l \<noteq> []) (map strip_comment (str_split LF text))"

definition pad :: "nat \<Rightarrow> string list \<Rightarrow> string list" where
  "pad n r = r @ replicate (n - length r) []"

definition read_csv :: "string \<Rightarrow> error + dataframe" where
  "read_csv text =
     (case table_lines text of
        [] \<Rightarrow> Inl EmptyDataError
      | h # ls \<Rightarrow>
          (let names = str_split TAB h;
               recs = map (str_split TAB) ls;
               width = (case recs of
                          [] \<Rightarrow> length names
                        | r # _ \<Rightarrow> max (length names) (length r))
           in if list_ex (\<lambda>r. width < length r) recs then Inl ParserError
              else Inr \<lparr>columns = names,
                        data = map (\<lambda>r. map to_cell (drop (width - length names) (pad width r)))
                                 recs\<rparr>))"

text \<open>\<^verbatim>\<open>df.columns = names\<close>: pandas raises ValueError on a length mismatch.\<close>

definition set_columns :: "dataframe \<Rightarrow> string list \<Rightarrow> error + dataframe" where
  "set_columns df names =
     (if length names = length (columns df) then Inr (df\<lparr>columns := names\<rparr>)
      else Inl ValueError)"

fun index_of :: "'a \<Rightarrow> 'a list \<Rightarrow> nat option" where
  "index_of x [] = None"
| "index_of x (y # ys) = (if x = y then Some 0 else map_option Suc (index_of x ys))"

text \<open>\<^verbatim>\<open>df[name]\<close>: the cells of the column of that name, in row order.\<close>

definition getitem :: "dataframe \<Rightarrow> string \<Rightarrow> error + cell list" where
  "getitem df name =
     (case index_of name (columns df) of
        None \<Rightarrow> Inl (KeyError name)
      | Some i \<Rightarrow> Inr (map (\<lambda>r. r ! i) (data df)))"

text \<open>
  \<^verbatim>\<open>dict(pairs)\<close>: the pairs are inserted in order; a key that is already there
  keeps its place and takes the new value.
\<close>

definition py_dict :: "(cell \<times> cell) list \<Rightarrow> dict" where
  "py_dict ps = fold (\<lambda>(k, v) d. AList.update k v d) ps []"

text \<open>Lines 22 to 25.\<close>

definition build_mapping :: "bool \<Rightarrow> dataframe \<Rightarrow> error + dict" where
  "build_mapping refseq_to_genbank df =
     (if refseq_to_genbank then
        (case getitem df ''RefSeq-Accn'' of
           Inl e \<Rightarrow> Inl e
         | Inr ks \<Rightarrow>
             (case getitem df ''GenBank-Accn'' of
                Inl e \<Rightarrow> Inl e
              | Inr vs \<Rightarrow> Inr (py_dict (zip ks vs))))
      else
        (case getitem df ''GenBank-Accn'' of
           Inl e \<Rightarrow> Inl e
         | Inr ks \<Rightarrow>
             (case getitem df ''RefSeq-Accn'' of
                Inl e \<Rightarrow> Inl e
              | Inr vs \<Rightarrow> Inr (py_dict (zip ks vs)))))"

text \<open>Lines 20 to 25, on the text of the conversion table.\<close>

definition load_mapping :: "bool \<Rightarrow> string \<Rightarrow> error + dict" where
  "load_mapping refseq_to_genbank text =
     (case read_csv text of
        Inl e \<Rightarrow> Inl e
      | Inr df \<Rightarrow>
          (case set_columns df header of
             Inl e \<Rightarrow> Inl e
           | Inr df' \<Rightarrow> build_mapping refseq_to_genbank df'))"

subsection \<open>Arguments (lines 10 to 16)\<close>

record args =
  input_gff3 :: string
  conversion_table :: string
  output_gff3 :: string
  refseq_to_genbank :: bool

text \<open>\<^verbatim>\<open>bool(s)\<close> on a string: only the empty string is false.\<close>

definition py_bool :: "string \<Rightarrow> bool" where
  "py_bool s = (s \<noteq> [])"

text \<open>
  Line 15, \<^verbatim>\<open>type=bool, default=True\<close>: the value argparse stores for
  \<^verbatim>\<open>--refseq-to-genbank\<close>, from the argument string given with the option on the
  command line, or the default when the option is absent.
\<close>

definition refseq_to_genbank_value :: "string option \<Rightarrow> bool" where
  "refseq_to_genbank_value given =
     (case given of None \<Rightarrow> True | Some s \<Rightarrow> py_bool s)"

subsection \<open>The script (lines 19 to 37)\<close>

text \<open>
  The files the process can see (path to text), the paths it may open for writing, and
  what it has printed on standard output.
\<close>

record world =
  files :: "string \<rightharpoonup> string"
  writable :: "string \<Rightarrow> bool"
  printed :: "message list"

text \<open>
  Lines 20 to 37 with \<^verbatim>\<open>args\<close> bound to \<open>a\<close>. Opening the output for writing
  truncates it before the input is opened; the \<^verbatim>\<open>with\<close> block closes the output
  on every exit, so what was written before an exception stays in the file.
\<close>

definition script :: "args \<Rightarrow> world \<Rightarrow> error option \<times> world" where
  "script a w =
     (case files w (conversion_table a) of
        None \<Rightarrow> (Some (FileNotFoundError (conversion_table a)), w)
      | Some table \<Rightarrow>
          (case load_mapping (refseq_to_genbank a) table of
             Inl e \<Rightarrow> (Some e, w)
           | Inr m \<Rightarrow>
               if \<not> writable w (output_gff3 a)
               then (Some (PermissionError (output_gff3 a)), w)
               else
                 (let w1 = w\<lparr>files := (files w)(output_gff3 a \<mapsto> [])\<rparr> in
                  case files w1 (input_gff3 a) of
                    None \<Rightarrow> (Some (FileNotFoundError (input_gff3 a)), w1)
                  | Some gff \<Rightarrow>
                      (case for_rows m (file_rows gff) \<lparr>fh = [], stdout = printed w1\<rparr> of
                         (e, st) \<Rightarrow>
                           (e, w1\<lparr>files := (files w1)(output_gff3 a \<mapsto> fh st),
                                  printed := stdout st\<rparr>)))))"

text \<open>
  The names bound at module level when line 19 is reached: the two imports, \<^verbatim>\<open>header\<close>
  and \<^verbatim>\<open>parse_args\<close>. The function \<^verbatim>\<open>parse_args\<close> is defined and never called,
  and nothing assigns \<^verbatim>\<open>args\<close>.
\<close>

datatype binding = Module | Function | Names "string list" | Parsed args

definition module_globals :: "(string \<times> binding) list" where
  "module_globals =
     [(''argparse'', Module), (''pd'', Module), (''header'', Names header),
      (''parse_args'', Function)]"

text \<open>
  The block under \<^verbatim>\<open>if __name__ == "__main__"\<close>. Line 20 reads the global
  \<^verbatim>\<open>args\<close> first; a name that is not bound raises NameError.
\<close>

definition main :: "world \<Rightarrow> error option \<times> world" where
  "main w =
     (case map_of module_globals ''args'' of
        Some (Parsed a) \<Rightarrow> script a w
      | _ \<Rightarrow> (Some (NameError ''args''), w))"

text \<open>
  The process: an uncaught exception prints its traceback on standard error and the
  interpreter exits with code 1; otherwise the exit code is 0. The command line plays no
  part, since nothing parses it.
\<close>

record outcome =
  exit_code :: nat
  final :: world
  stderr :: "message list"

definition run :: "string list \<Rightarrow> world \<Rightarrow> outcome" where
  "run argv w =
     (case main w of
        (None, w') \<Rightarrow> \<lparr>exit_code = 0, final = w', stderr = []\<rparr>
      | (Some e, w') \<Rightarrow> \<lparr>exit_code = 1, final = w', stderr = [Traceback e]\<rparr>)"

subsection \<open>Vocabulary for the statements, and example inputs\<close>



text \<open>
  Lines in the layout of an NCBI assembly report, a table made of them, and lines of a
  GFF3 file.
\<close>

definition chr1 :: string where
  "chr1 = str_join TAB [''1'', ''assembled-molecule'', ''1'', ''Chromosome'', ''CM000663.2'',
                         ''='', ''NC_000001.11'', ''Primary Assembly'', ''248956422'', ''chr1'']"

definition chr2 :: string where
  "chr2 = str_join TAB [''2'', ''assembled-molecule'', ''2'', ''Chromosome'', ''CM000664.2'',
                         ''='', ''NC_000002.12'', ''Primary Assembly'', ''242193529'', ''chr2'']"

definition chr3 :: string where
  "chr3 = str_join TAB [''3'', ''assembled-molecule'', ''3'', ''Chromosome'', ''CM000665.2'',
                         ''='', ''NC_000003.12'', ''Primary Assembly'', ''198295559'', ''chr3'']"



definition example_table :: string where
  "example_table = str_join LF [''# Assembly name:  GRCh38.p14'', chr1, chr2, chr3, []]"







section \<open>Properties of the string primitives\<close>

lemma str_split_not_Nil [simp]: "str_split sep s \<noteq> []"
  by (induction s) (auto split: list.splits)




lemma str_split_plain: "sep \<notin> set s \<Longrightarrow> str_split sep s = [s]"
  by (induction s) auto



section \<open>The loop\<close>

lemma for_rows_append:
  "for_rows m (xs @ ys) st =
     (case for_rows m xs st of
        (Some e, st') \<Rightarrow> (Some e, st')
      | (None, st') \<Rightarrow> for_rows m ys st')"
  by (induction xs arbitrary: st) (auto split: prod.splits option.splits)

lemma process_row_comment:
  "startswith row ''#'' \<Longrightarrow> \<not> startswith row ''##gff'' \<Longrightarrow> process_row m row st = (None, st)"
  by (simp add: process_row_def)

section \<open>The dictionary and the loader\<close>

lemma startswith_gff_hash: "startswith row ''##gff'' \<Longrightarrow> startswith row ''#''"
  by (cases row) (simp_all add: startswith_def)























lemma not_hash_not_gff: "\<not> startswith row ''#'' \<Longrightarrow> \<not> startswith row ''##gff''"
  using startswith_gff_hash by blast

section \<open>The claims\<close>

text \<open>
  C1. The claim: with a readable input, a readable well-formed table and a writable
  output path the program completes the pass and exits with code 0. The script as
  written never gets that far: line 20 reads \<^verbatim>\<open>args\<close>, which nothing has bound, so
  every run, whatever the command line and the files, ends in NameError with exit code
  1, having touched no file and printed nothing on standard output.
\<close>

theorem run_raises_NameError:
  "run argv w = \<lparr>exit_code = 1, final = w, stderr = [Traceback (NameError ''args'')]\<rparr>"
  by (simp add: run_def main_def module_globals_def)

text \<open>
  C2. The claim: a line that starts with \<^verbatim>\<open>##gff\<close> is copied to the output exactly
  once and is not processed further. In the loop the branch that writes the line has no
  \<^verbatim>\<open>continue\<close>: the line goes on to be split and looked up, the diagnostic is
  printed, and the line is written a second time.
\<close>

theorem gff_directive_written_twice:
  "for_rows [] [''##gff-version 3\<newline>''] \<lparr>fh = [], stdout = []\<rparr> =
     (None, \<lparr>fh = ''##gff-version 3\<newline>##gff-version 3\<newline>'',
             stdout = [Row_unparseable [''##gff-version 3\<newline>'']]\<rparr>)"
  by (simp add: process_row_def remap_row_def startswith_def)




text \<open>
  C4. The claim: the default direction is RefSeq to GenBank, and giving the option as
  false on the command line reverses it. With \<^verbatim>\<open>type=bool\<close> argparse stores
  \<^verbatim>\<open>bool('False')\<close>, which is true as for every non-empty string, so the mapping
  still runs from RefSeq to GenBank.
\<close>

theorem flag_False_keeps_direction:
  "refseq_to_genbank_value (Some ''False'') = True
   \<and> load_mapping (refseq_to_genbank_value (Some ''False'')) example_table
       = Inr [(Str ''NC_000002.12'', Str ''CM000664.2''),
              (Str ''NC_000003.12'', Str ''CM000665.2'')]"
  by code_simp




text \<open>
  C6. A line that starts with \<^verbatim>\<open>#\<close> and not with \<^verbatim>\<open>##gff\<close> leaves no trace:
  the loop ends with the same exception or none, the same output text and the same
  printed messages as on the input without that line.
\<close>

theorem comment_rows_leave_no_trace:
  assumes "startswith row ''#''" and "\<not> startswith row ''##gff''"
  shows "for_rows m (before @ row # after) st = for_rows m (before @ after) st"
  using assms
  by (simp add: for_rows_append process_row_comment split: prod.splits option.splits)

theorem comment_rows_leave_no_trace_witness:
  "startswith ''#!genome-build GRCh38\<newline>'' ''#''
   \<and> \<not> startswith ''#!genome-build GRCh38\<newline>'' ''##gff''
   \<and> for_rows [] ([''x\<newline>''] @ ''#!genome-build GRCh38\<newline>'' # [''y\<newline>''])
         \<lparr>fh = [], stdout = []\<rparr>
       = for_rows [] ([''x\<newline>''] @ [''y\<newline>'']) \<lparr>fh = [], stdout = []\<rparr>"
proof -
  have a: "startswith ''#!genome-build GRCh38\<newline>'' ''#''"
    by (simp add: startswith_def)
  have b: "\<not> startswith ''#!genome-build GRCh38\<newline>'' ''##gff''"
    by (simp add: startswith_def)
  show ?thesis
    using a b comment_rows_leave_no_trace [OF a b] by blast
qed








text \<open>
  C10, as amended. A line that holds no tab and does not start with \<^verbatim>\<open>#\<close> is looked
  up whole, with its newline when it has one. When the whole line is no key of the
  mapping, whatever the mapping holds for the line without its newline, the diagnostic is
  printed and the line is written as it is. When the whole line is a key with a string
  as value, that string is written in its place and nothing is printed; with a missing
  value the join raises TypeError.
\<close>

theorem line_without_tab_is_looked_up_whole:
  assumes no_tab: "TAB \<notin> set row"
    and row: "\<not> startswith row ''#''"
  shows "process_row m row st =
           (case map_of m (Str row) of
              None \<Rightarrow>
                (None, st\<lparr>stdout := stdout st @ [Row_unparseable [row]],
                          fh := fh st @ row\<rparr>)
            | Some NaN \<Rightarrow> (Some TypeError, st)
            | Some (Str v) \<Rightarrow> (None, st\<lparr>fh := fh st @ v\<rparr>))"
proof -
  have fields: "str_split TAB row = [row]"
    using no_tab by (rule str_split_plain)
  with row not_hash_not_gff [OF row] show ?thesis
    by (simp add: process_row_def remap_row_def Let_def split: option.splits cell.splits)
qed

theorem line_without_tab_is_looked_up_whole_witness:
  "TAB \<notin> set ''NC_000002.12\<newline>''
   \<and> \<not> startswith ''NC_000002.12\<newline>'' ''#''
   \<and> map_of [(Str ''NC_000002.12'', Str ''CM000664.2''),
              (Str ''NC_000003.12'', Str ''CM000665.2'')] (Str ''NC_000002.12'')
       = Some (Str ''CM000664.2'')
   \<and> process_row [(Str ''NC_000002.12'', Str ''CM000664.2''),
                   (Str ''NC_000003.12'', Str ''CM000665.2'')] ''NC_000002.12\<newline>''
         \<lparr>fh = [], stdout = []\<rparr>
       = (None, \<lparr>fh = ''NC_000002.12\<newline>'',
                 stdout = [Row_unparseable [''NC_000002.12\<newline>'']]\<rparr>)"
proof -
  let ?m = "[(Str ''NC_000002.12'', Str ''CM000664.2''),
             (Str ''NC_000003.12'', Str ''CM000665.2'')]"
  have a: "TAB \<notin> set ''NC_000002.12\<newline>''"
    by simp
  have b: "\<not> startswith ''NC_000002.12\<newline>'' ''#''"
    by (simp add: startswith_def)
  have c: "map_of ?m (Str ''NC_000002.12'') = Some (Str ''CM000664.2'')"
    by simp
  have d: "map_of ?m (Str ''NC_000002.12\<newline>'') = None"
    by simp
  show ?thesis
    using a b c
      line_without_tab_is_looked_up_whole [OF a b, of ?m "\<lparr>fh = [], stdout = []\<rparr>"]
    by (simp add: d)
qed

text \<open>
  The claim as stated, for every line without a tab, fails on a last line that has no
  newline: the key looked up is then the bare text, and the line is remapped.
\<close>

theorem line_without_tab_counterexample:
  "load_mapping True example_table
     = Inr [(Str ''NC_000002.12'', Str ''CM000664.2''),
            (Str ''NC_000003.12'', Str ''CM000665.2'')]
   \<and> TAB \<notin> set ''NC_000002.12''
   \<and> file_rows ''NC_000002.12'' = [''NC_000002.12'']
   \<and> for_rows [(Str ''NC_000002.12'', Str ''CM000664.2''),
                (Str ''NC_000003.12'', Str ''CM000665.2'')]
         (file_rows ''NC_000002.12'') \<lparr>fh = [], stdout = []\<rparr>
       = (None, \<lparr>fh = ''CM000664.2'', stdout = []\<rparr>)"
  by code_simp

end
